theory Spec2Isabelle
  imports Complex_Main
begin

section \<open>Numbers\<close>

text \<open>
  Prices, sizes and the stop percentage are Python floats in \<^verbatim>\<open>manager_closer.py\<close>.
  They are embedded as exact reals: \<open>+\<close>, \<open>-\<close>, \<open>*\<close> and \<open>/\<close> are the exact
  operations, and the only rounding is the explicit \<^verbatim>\<open>round(x, 5)\<close> of the source.
  Python rounds the exact value of a float to \<open>n\<close> decimals, a tie to the even neighbour.
  None of the examples below rounds a tie.
\<close>

definition round_half_even :: "real \<Rightarrow> int" where
  "round_half_even x =
     (let f = \<lfloor>x\<rfloor>; d = x - of_int f
      in if d < 1 / 2 then f
         else if 1 / 2 < d then f + 1
         else if even f then f else f + 1)"

definition py_round :: "real \<Rightarrow> nat \<Rightarrow> real" where
  "py_round x n = of_int (round_half_even (x * 10 ^ n)) / 10 ^ n"

text \<open>A price with at most five fractional digits, the precision every computed stop has.\<close>

definition five_digits :: "real \<Rightarrow> bool" where
  "five_digits x = (py_round x 5 = x)"

section \<open>Stop-loss calculator\<close>

text \<open>
  \<^verbatim>\<open>TrailingStopManager._calculate_stop_loss\<close> and
  \<^verbatim>\<open>TrailingStopManager._should_update_stop_loss\<close>; the instance field
  \<^verbatim>\<open>self.stop_loss_percentage\<close> is the first argument \<open>pct\<close>. The source branches on
  \<^verbatim>\<open>size > 0\<close> and treats everything else as a short position.
\<close>

definition calculate_stop_loss :: "real \<Rightarrow> real \<Rightarrow> real \<Rightarrow> real \<Rightarrow> real" where
  "calculate_stop_loss pct current_price entry_price sz =
     (let stop_diff = entry_price * (pct / 100)
      in if sz > 0 then py_round (current_price - stop_diff) 5
         else py_round (current_price + stop_diff) 5)"

definition should_update_stop_loss :: "real \<Rightarrow> real \<Rightarrow> real \<Rightarrow> real \<Rightarrow> real \<Rightarrow> bool" where
  "should_update_stop_loss pct current_price current_stop_loss entry_price sz =
     (let stop_diff = entry_price * (pct / 100)
      in if sz > 0
         then (let new_stop_loss = current_price - stop_diff
               in new_stop_loss > current_stop_loss)
         else (let new_stop_loss = current_price + stop_diff
               in new_stop_loss < current_stop_loss))"

section \<open>Tracked positions and the exchange\<close>

text \<open>
  One entry of \<^verbatim>\<open>positions_data["positions"]\<close>, with the keys the source writes. The key
  \<^verbatim>\<open>size\<close> is the field \<open>size_qty\<close>; its sign is the direction recorded for the entry.
\<close>

record tracked_position =
  entry_price :: real
  current_price :: real
  stop_loss :: real
  size_qty :: real
  stop_loss_updates :: int
  last_update :: string

type_synonym stored_positions = "string \<rightharpoonup> tracked_position"

text \<open>
  One element of \<^verbatim>\<open>get_open_positions()\<close>: the product symbol and the two numbers the loop
  reads from it, \<^verbatim>\<open>float(pos_data.get('entry_price', 0))\<close> and
  \<^verbatim>\<open>float(pos_data.get('size', 0))\<close>.
\<close>

record position =
  product_symbol :: string
  position_entry_price :: real
  position_size :: real

datatype side = buy | sell

record order_request =
  product_id :: int
  order_size :: real
  order_type :: string
  order_side :: side

text \<open>
  What the surroundings answer during one run: the symbol to product id dictionary, the
  price \<^verbatim>\<open>_get_current_price\<close> returns for a symbol (0 when both channels fail), whether
  the response of \<^verbatim>\<open>place_order\<close> carries a true \<^verbatim>\<open>success\<close>, and the text of
  \<^verbatim>\<open>datetime.now()\<close> when a symbol is handled. \<^verbatim>\<open>place_order\<close> catches every exception
  and returns a response, so a call never raises.
\<close>

record exchange =
  product_mapping :: "string \<rightharpoonup> int"
  get_current_price :: "string \<Rightarrow> real"
  place_order :: "order_request \<Rightarrow> bool"
  now :: "string \<Rightarrow> string"

section \<open>Reconciliation loop\<close>

text \<open>
  The part of \<^verbatim>\<open>manage_stop_losses\<close> between loading and saving: the loop over the live
  positions and the removal of closed ones. Every function returns the updated dictionary
  together with the orders it placed, each tagged with the symbol it was placed for.
\<close>

text \<open>The entry written for a symbol that is not stored yet (lines 369 to 379).\<close>

definition new_position_data :: "exchange \<Rightarrow> real \<Rightarrow> position \<Rightarrow> real \<Rightarrow> tracked_position" where
  "new_position_data ex pct pos price =
     \<lparr>entry_price = position_entry_price pos,
      current_price = price,
      stop_loss = calculate_stop_loss pct (position_entry_price pos) (position_entry_price pos)
                    (position_size pos),
      size_qty = position_size pos,
      stop_loss_updates = 0,
      last_update = now ex (product_symbol pos)\<rparr>"

text \<open>The three assignments of an accepted stop update (lines 423 to 427, 463 to 467).\<close>

definition trailed :: "exchange \<Rightarrow> real \<Rightarrow> string \<Rightarrow> real \<Rightarrow> real \<Rightarrow> tracked_position \<Rightarrow> tracked_position" where
  "trailed ex pct symbol sz price stored_pos =
     stored_pos\<lparr>stop_loss := calculate_stop_loss pct price (entry_price stored_pos) sz,
                stop_loss_updates := stop_loss_updates stored_pos + 1,
                last_update := now ex symbol\<rparr>"

text \<open>The arguments of the closing \<^verbatim>\<open>place_order\<close> call (lines 409 to 414, 449 to 454).\<close>

definition close_order :: "int \<Rightarrow> real \<Rightarrow> side \<Rightarrow> order_request" where
  "close_order pid sz sd =
     \<lparr>product_id = pid, order_size = \<bar>sz\<bar>, order_type = ''market_order'', order_side = sd\<rparr>"

text \<open>
  The branch for a symbol that is already stored (lines 401 to 481), entered after
  \<^verbatim>\<open>stored_pos['current_price'] = current_price\<close>: the stop test, the close order and the
  deletion on success, else the update test and the trailed stop. The direction is that of
  the live position.
\<close>

definition check_stop_loss ::
  "exchange \<Rightarrow> real \<Rightarrow> string \<Rightarrow> int \<Rightarrow> real \<Rightarrow> real \<Rightarrow> tracked_position \<Rightarrow> stored_positions \<Rightarrow>
     stored_positions \<times> (string \<times> order_request) list" where
  "check_stop_loss ex pct symbol pid sz price stored_pos stored =
     (if sz > 0 then
        (if price \<le> stop_loss stored_pos then
           (if place_order ex (close_order pid sz sell)
            then (stored(symbol := None), [(symbol, close_order pid sz sell)])
            else (stored(symbol \<mapsto> stored_pos), [(symbol, close_order pid sz sell)]))
         else if should_update_stop_loss pct price (stop_loss stored_pos) (entry_price stored_pos) sz
         then (stored(symbol \<mapsto> trailed ex pct symbol sz price stored_pos), [])
         else (stored(symbol \<mapsto> stored_pos), []))
      else
        (if price \<ge> stop_loss stored_pos then
           (if place_order ex (close_order pid sz buy)
            then (stored(symbol := None), [(symbol, close_order pid sz buy)])
            else (stored(symbol \<mapsto> stored_pos), [(symbol, close_order pid sz buy)]))
         else if should_update_stop_loss pct price (stop_loss stored_pos) (entry_price stored_pos) sz
         then (stored(symbol \<mapsto> trailed ex pct symbol sz price stored_pos), [])
         else (stored(symbol \<mapsto> stored_pos), [])))"

text \<open>
  One pass of the loop over \<^verbatim>\<open>current_positions\<close> (lines 348 to 481).
  \<^verbatim>\<open>if not product_id\<close> skips a symbol whose id is missing or 0; a price of 0 skips it as
  well.
\<close>

definition process_position ::
  "exchange \<Rightarrow> real \<Rightarrow> position \<Rightarrow> stored_positions \<Rightarrow> stored_positions \<times> (string \<times> order_request) list" where
  "process_position ex pct pos stored =
     (let symbol = product_symbol pos; sz = position_size pos
      in case product_mapping ex symbol of
           None \<Rightarrow> (stored, [])
         | Some pid \<Rightarrow>
             if pid = 0 then (stored, [])
             else
               (let price = get_current_price ex symbol
                in if price = 0 then (stored, [])
                   else
                     (case stored symbol of
                        None \<Rightarrow> (stored(symbol \<mapsto> new_position_data ex pct pos price), [])
                      | Some old \<Rightarrow>
                          check_stop_loss ex pct symbol pid sz price
                            (old\<lparr>current_price := price\<rparr>) stored)))"

fun process_positions ::
  "exchange \<Rightarrow> real \<Rightarrow> position list \<Rightarrow> stored_positions \<Rightarrow> stored_positions \<times> (string \<times> order_request) list" where
  "process_positions ex pct [] stored = (stored, [])"
| "process_positions ex pct (pos # rest) stored =
     (let (stored1, orders1) = process_position ex pct pos stored;
          (stored2, orders2) = process_positions ex pct rest stored1
      in (stored2, orders1 @ orders2))"

text \<open>
  \<^verbatim>\<open>closed_positions = set(stored_positions.keys()) - current_symbols\<close>, each of which is
  deleted (lines 483 to 497).
\<close>

definition remove_closed :: "position list \<Rightarrow> stored_positions \<Rightarrow> stored_positions" where
  "remove_closed current_positions stored =
     (\<lambda>symbol. if stored symbol \<noteq> None \<and> symbol \<notin> set (map product_symbol current_positions)
               then None else stored symbol)"

definition reconcile ::
  "exchange \<Rightarrow> real \<Rightarrow> position list \<Rightarrow> stored_positions \<Rightarrow> stored_positions \<times> (string \<times> order_request) list" where
  "reconcile ex pct current_positions stored =
     (let (stored1, orders) = process_positions ex pct current_positions stored
      in (remove_closed current_positions stored1, orders))"

text \<open>The orders of a run that were placed for one symbol.\<close>

definition orders_for :: "string \<Rightarrow> (string \<times> order_request) list \<Rightarrow> order_request list" where
  "orders_for symbol orders = map snd (filter (\<lambda>entry. fst entry = symbol) orders)"

section \<open>Position store\<close>

text \<open>
  \<^verbatim>\<open>_load_positions_data\<close> and \<^verbatim>\<open>_save_positions_data\<close> work on the file
  \<^verbatim>\<open>positions_data.json\<close>, its neighbour \<^verbatim>\<open>positions_data.json.bak\<close>, and the
  directories \<^verbatim>\<open>.backup\<close> and \<^verbatim>\<open>.temp\<close>. A file is what reading it gives: \<^verbatim>\<open>open\<close>
  raises (the file cannot be read), or \<^verbatim>\<open>json.load\<close> raises a decode error (bytes that do
  not parse, an empty file among them), or a document is returned. Files in the two
  directories are named by the second in which they are written, so the clock is part of the
  state; \<^verbatim>\<open>time.sleep(1)\<close> advances it.
\<close>

text \<open>
  What \<^verbatim>\<open>json.load\<close> returns: a JSON object, with its \<^verbatim>\<open>"positions"\<close> member if it has
  one, or a JSON value that is not an object (a list, a string, a number, \<^verbatim>\<open>true\<close>,
  \<^verbatim>\<open>false\<close>, \<^verbatim>\<open>null\<close>). A snapshot is an object with a \<^verbatim>\<open>"positions"\<close> member; the
  members of that dictionary are tracked positions.
\<close>

datatype document = object "stored_positions option" | non_object

datatype content = unreadable | garbage | json document

record files =
  positions_file :: "content option"
  bak_file :: "content option"
  backup_dir :: "(nat \<times> content) list"
  temp_dir :: "(nat \<times> content) list"
  clock :: nat

text \<open>
  The steps of one save attempt at which an exception can be raised, and the two clean-up
  steps whose exceptions are caught and logged as warnings. Which steps fail in which
  attempt is decided by the surroundings (a full disk, a directory that cannot be written).
\<close>

datatype step =
  make_backup_dir | write_backup | make_temp_dir | write_temp | verify_temp | replace_final
  | verify_final | clean_temp | prune_backups | restore_bak

datatype exn = save_failed | os_error

datatype log_line =
  loaded | decode_error | file_not_found | load_error
  | save_attempt nat | attempt_failed nat step | retrying | restoring | restored
  | restore_failed | all_attempts_failed | saved | cleanup_warning | prune_warning

definition empty_snapshot :: document where
  "empty_snapshot = object (Some Map.empty)"

text \<open>
  \<^verbatim>\<open>_load_positions_data\<close>. The inner \<^verbatim>\<open>try\<close> catches the decode error; anything else
  raised in the body (the file cannot be opened) reaches the outer handler. What
  \<^verbatim>\<open>json.load\<close> returns is returned as it is, whatever its shape. The result is what the
  body returns or raises, then what the function returns, with the lines it logs.
\<close>

definition load_body :: "files \<Rightarrow> (exn + document) \<times> log_line list" where
  "load_body w =
     (case positions_file w of
        None \<Rightarrow> (Inr empty_snapshot, [file_not_found])
      | Some unreadable \<Rightarrow> (Inl os_error, [])
      | Some garbage \<Rightarrow> (Inr empty_snapshot, [decode_error])
      | Some (json data) \<Rightarrow> (Inr data, [loaded]))"

definition load_positions_data :: "files \<Rightarrow> (exn + document) \<times> log_line list" where
  "load_positions_data w =
     (case load_body w of
        (Inl e, lines) \<Rightarrow> (Inr empty_snapshot, lines @ [load_error])
      | (Inr data, lines) \<Rightarrow> (Inr data, lines))"

definition put_file :: "nat \<Rightarrow> content \<Rightarrow> (nat \<times> content) list \<Rightarrow> (nat \<times> content) list" where
  "put_file name c dir = (name, c) # filter (\<lambda>entry. fst entry \<noteq> name) dir"

definition remove_file :: "nat \<Rightarrow> (nat \<times> content) list \<Rightarrow> (nat \<times> content) list" where
  "remove_file name dir = filter (\<lambda>entry. fst entry \<noteq> name) dir"

text \<open>\<^verbatim>\<open>backups[:-5]\<close> of the sorted names is deleted when there are more than five.\<close>

definition keep_last_5 :: "(nat \<times> content) list \<Rightarrow> (nat \<times> content) list" where
  "keep_last_5 dir =
     (let backups = sort (map fst dir)
      in if length backups > 5
         then filter (\<lambda>entry. fst entry \<notin> set (take (length backups - 5) backups)) dir
         else dir)"

text \<open>
  The backup of an existing file parses it and writes the result. The source is opened
  first, then the backup file for writing, then the source is parsed: unparsable bytes
  leave an empty backup behind and raise.
\<close>

definition backup_existing :: "(step \<Rightarrow> bool) \<Rightarrow> files \<Rightarrow> step option \<times> files" where
  "backup_existing fails w =
     (case positions_file w of
        None \<Rightarrow> (None, w)
      | Some c \<Rightarrow>
          if fails write_backup then (Some write_backup, w)
          else (case c of
                  unreadable \<Rightarrow> (Some write_backup, w)
                | garbage \<Rightarrow>
                    (Some write_backup, w\<lparr>backup_dir := put_file (clock w) garbage (backup_dir w)\<rparr>)
                | json old \<Rightarrow>
                    (None, w\<lparr>backup_dir := put_file (clock w) (json old) (backup_dir w)\<rparr>)))"

definition tidy_up :: "(step \<Rightarrow> bool) \<Rightarrow> files \<Rightarrow> files \<times> log_line list" where
  "tidy_up fails w =
     (let (w1, lines1) = (if fails clean_temp then (w, [cleanup_warning])
                          else (w\<lparr>temp_dir := []\<rparr>, []));
          (w2, lines2) = (if fails prune_backups then (w1, [prune_warning])
                          else (w1\<lparr>backup_dir := keep_last_5 (backup_dir w1)\<rparr>, []))
      in (w2, lines1 @ lines2))"

text \<open>
  The body of the \<^verbatim>\<open>try\<close> in the retry loop: the step that raised, if any, the files as
  they are left, and the lines logged after the attempt header.
\<close>

definition try_save :: "(step \<Rightarrow> bool) \<Rightarrow> document \<Rightarrow> files \<Rightarrow> step option \<times> files \<times> log_line list" where
  "try_save fails data w =
     (if fails make_backup_dir then (Some make_backup_dir, w, [])
      else
        (case backup_existing fails w of
           (Some st, w1) \<Rightarrow> (Some st, w1, [])
         | (None, w1) \<Rightarrow>
             if fails make_temp_dir then (Some make_temp_dir, w1, [])
             else if fails write_temp
             then (Some write_temp, w1\<lparr>temp_dir := put_file (clock w1) garbage (temp_dir w1)\<rparr>, [])
             else
               (let w2 = w1\<lparr>temp_dir := put_file (clock w1) (json data) (temp_dir w1)\<rparr>
                in if fails verify_temp \<or> map_of (temp_dir w2) (clock w2) \<noteq> Some (json data)
                   then (Some verify_temp, w2, [])
                   else if fails replace_final then (Some replace_final, w2, [])
                   else
                     (let w3 = w2\<lparr>positions_file := map_of (temp_dir w2) (clock w2),
                                    temp_dir := remove_file (clock w2) (temp_dir w2)\<rparr>
                      in if fails verify_final \<or> positions_file w3 \<noteq> Some (json data)
                         then (Some verify_final, w3, [])
                         else (let (w4, lines) = tidy_up fails w3
                               in (None, w4, saved # lines))))))"

definition MAX_RETRIES :: nat where
  "MAX_RETRIES = 3"

text \<open>
  The handler of a failed attempt on the last retry: \<^verbatim>\<open>positions_data.json.bak\<close>, when it
  exists, is moved over the positions file.
\<close>

definition restore_from_bak :: "(step \<Rightarrow> bool) \<Rightarrow> files \<Rightarrow> files \<times> log_line list" where
  "restore_from_bak fails w =
     (if bak_file w \<noteq> None then
        (if fails restore_bak then (w, [restoring, restore_failed])
         else (w\<lparr>positions_file := bak_file w, bak_file := None\<rparr>, [restoring, restored]))
      else (w, []))"

text \<open>
  The \<^verbatim>\<open>while retry_count < MAX_RETRIES\<close> loop. \<open>faults n\<close> tells which steps fail in
  attempt \<open>n\<close>, counted from 1. The result is the exception that leaves the function, if
  any, the files, and the log.
\<close>

function save_loop ::
  "(nat \<Rightarrow> step \<Rightarrow> bool) \<Rightarrow> document \<Rightarrow> nat \<Rightarrow> files \<Rightarrow> exn option \<times> files \<times> log_line list" where
  "save_loop faults data retry_count w =
     (if retry_count < MAX_RETRIES then
        (case try_save (faults (retry_count + 1)) data w of
           (None, w1, lines) \<Rightarrow> (None, w1, save_attempt (retry_count + 1) # lines)
         | (Some st, w1, lines) \<Rightarrow>
             (let (w2, lines2) =
                    (if retry_count + 1 = MAX_RETRIES
                     then restore_from_bak (faults (retry_count + 1)) w1 else (w1, []));
                  failed = save_attempt (retry_count + 1) # lines
                             @ [attempt_failed (retry_count + 1) st] @ lines2
              in if retry_count + 1 < MAX_RETRIES
                 then (let (r, w3, lines3) =
                             save_loop faults data (retry_count + 1) (w2\<lparr>clock := clock w2 + 1\<rparr>)
                       in (r, w3, failed @ [retrying] @ lines3))
                 else (Some save_failed, w2, failed @ [all_attempts_failed])))
      else (None, w, []))"
  by pat_completeness auto
termination
  by (relation "measure (\<lambda>(faults, data, retry_count, w). MAX_RETRIES - retry_count)") auto

definition save_positions_data ::
  "(nat \<Rightarrow> step \<Rightarrow> bool) \<Rightarrow> document \<Rightarrow> files \<Rightarrow> exn option \<times> files \<times> log_line list" where
  "save_positions_data faults data w = save_loop faults data 0 w"

declare save_loop.simps [simp del]

text \<open>
  The step at which an attempt fails when the existing file does not parse: creating the
  backup directory if that fails, the backup otherwise.
\<close>

definition backup_failure :: "(step \<Rightarrow> bool) \<Rightarrow> step" where
  "backup_failure fails = (if fails make_backup_dir then make_backup_dir else write_backup)"

text \<open>Readings of the log: the attempts made and the pauses between them.\<close>

fun is_attempt :: "log_line \<Rightarrow> bool" where
  "is_attempt (save_attempt n) = True"
| "is_attempt line = False"

definition attempts :: "log_line list \<Rightarrow> nat" where
  "attempts lines = length (filter is_attempt lines)"

definition pauses :: "log_line list \<Rightarrow> nat" where
  "pauses lines = length (filter (\<lambda>line. line = retrying) lines)"

section \<open>One run\<close>

text \<open>
  \<^verbatim>\<open>manage_stop_losses\<close>: without a product mapping the run returns at once; otherwise it
  loads the snapshot, reconciles it with the live positions, and saves the result.
  \<^verbatim>\<open>positions_data.get("positions", {})\<close> raises on a value that is not an object and gives
  the empty dictionary for an object without that member. The outer handler catches what
  is raised and logs it. The result is the files, the
  orders placed and the log. The claims about what a run does to the store are stated on
  \<open>reconcile\<close>, whose result is the dictionary handed to the save.
\<close>

datatype run_line = no_product_mapping | store_line log_line | run_error

definition manage_stop_losses ::
  "exchange \<Rightarrow> real \<Rightarrow> (nat \<Rightarrow> step \<Rightarrow> bool) \<Rightarrow> position list \<Rightarrow> files \<Rightarrow>
     files \<times> (string \<times> order_request) list \<times> run_line list" where
  "manage_stop_losses ex pct faults current_positions w =
     (if product_mapping ex = Map.empty then (w, [], [no_product_mapping])
      else
        (case load_positions_data w of
           (Inl e, lines) \<Rightarrow> (w, [], map store_line lines @ [run_error])
         | (Inr non_object, lines) \<Rightarrow> (w, [], map store_line lines @ [run_error])
         | (Inr (object member), lines) \<Rightarrow>
             (let stored_positions = (case member of None \<Rightarrow> Map.empty | Some d \<Rightarrow> d);
                  (stored, orders) = reconcile ex pct current_positions stored_positions;
                  (r, w1, lines1) = save_positions_data faults (object (Some stored)) w
              in (w1, orders,
                  map store_line (lines @ lines1)
                    @ (case r of None \<Rightarrow> [] | Some e \<Rightarrow> [run_error])))))"

section \<open>Example data\<close>

text \<open>
  A run with two products. The exchange quotes the two given prices, answers every order
  with the given \<^verbatim>\<open>success\<close> flag, and knows both product ids.
\<close>

definition quotes :: "real \<Rightarrow> real \<Rightarrow> bool \<Rightarrow> exchange" where
  "quotes btc eth ok =
     \<lparr>product_mapping = [''BTCUSD'' \<mapsto> 27, ''ETHUSD'' \<mapsto> 3136],
      get_current_price = (\<lambda>symbol. if symbol = ''BTCUSD'' then btc
                                     else if symbol = ''ETHUSD'' then eth else 0),
      place_order = (\<lambda>ord. ok),
      now = (\<lambda>symbol. ''2025-03-18 05:28:18'')\<rparr>"

definition btc_position :: "real \<Rightarrow> position" where
  "btc_position sz = \<lparr>product_symbol = ''BTCUSD'', position_entry_price = 100, position_size = sz\<rparr>"

definition eth_position :: "real \<Rightarrow> position" where
  "eth_position sz = \<lparr>product_symbol = ''ETHUSD'', position_entry_price = 50, position_size = sz\<rparr>"

definition btc_long :: tracked_position where
  "btc_long =
     \<lparr>entry_price = 100, current_price = 100, stop_loss = 98, size_qty = 1,
      stop_loss_updates = 0, last_update = ''2025-03-17 09:00:00''\<rparr>"

definition eth_short :: tracked_position where
  "eth_short =
     \<lparr>entry_price = 50, current_price = 50, stop_loss = 51, size_qty = - 2,
      stop_loss_updates = 0, last_update = ''2025-03-17 09:00:00''\<rparr>"

text \<open>
  A disk whose positions file does not parse, with one earlier backup, and surroundings
  that add no failure of their own.
\<close>

definition old_snapshot :: document where
  "old_snapshot = object (Some [''BTCUSD'' \<mapsto> btc_long])"

definition new_snapshot :: document where
  "new_snapshot = object (Some [''BTCUSD'' \<mapsto> btc_long\<lparr>current_price := 101\<rparr>])"

definition corrupt_disk :: "content option \<Rightarrow> files" where
  "corrupt_disk bak =
     \<lparr>positions_file = Some garbage, bak_file = bak,
      backup_dir = [(900, json old_snapshot)], temp_dir = [], clock = 1000\<rparr>"

definition no_faults :: "nat \<Rightarrow> step \<Rightarrow> bool" where
  "no_faults n st = False"

section \<open>Evaluation of the examples\<close>

lemmas example_defs = quotes_def btc_position_def eth_position_def btc_long_def eth_short_def

lemmas loop_defs = reconcile_def remove_closed_def process_position_def check_stop_loss_def
  close_order_def trailed_def new_position_data_def orders_for_def
  should_update_stop_loss_def calculate_stop_loss_def py_round_def round_half_even_def
  five_digits_def Let_def

lemmas store_defs = save_positions_data_def try_save_def backup_existing_def tidy_up_def
  restore_from_bak_def put_file_def remove_file_def keep_last_5_def
  load_positions_data_def load_body_def empty_snapshot_def

section \<open>Stop-loss calculator: rounding and the update test\<close>

lemma round_half_even_ge_floor: "\<lfloor>x\<rfloor> \<le> round_half_even x"
  by (simp add: round_half_even_def Let_def)

lemma round_half_even_le_floor_Suc: "round_half_even x \<le> \<lfloor>x\<rfloor> + 1"
  by (simp add: round_half_even_def Let_def)

lemma round_half_even_of_int: "round_half_even (of_int k) = k"
  by (simp add: round_half_even_def Let_def)

lemma round_half_even_lower: "of_int k \<le> x \<Longrightarrow> k \<le> round_half_even x"
proof -
  assume "of_int k \<le> x"
  then have "k \<le> \<lfloor>x\<rfloor>" by (simp add: le_floor_iff)
  with round_half_even_ge_floor [of x] show ?thesis by linarith
qed

lemma round_half_even_upper: "x \<le> of_int k \<Longrightarrow> round_half_even x \<le> k"
proof (cases "x = of_int k")
  case True
  then show ?thesis by (simp add: round_half_even_of_int)
next
  case False
  assume "x \<le> of_int k"
  with False have "x < of_int k" by simp
  then have "\<lfloor>x\<rfloor> < k" by (simp add: floor_less_iff)
  with round_half_even_le_floor_Suc [of x] show ?thesis by linarith
qed

lemma five_digits_scaled: "five_digits x \<Longrightarrow> x * 10 ^ 5 = of_int (round_half_even (x * 10 ^ 5))"
  by (simp add: five_digits_def py_round_def field_simps)

lemma five_digits_py_round: "five_digits (py_round x 5)"
  by (simp add: five_digits_def py_round_def round_half_even_of_int)

lemma py_round_lower: "five_digits s \<Longrightarrow> s \<le> x \<Longrightarrow> s \<le> py_round x 5"
proof -
  assume g: "five_digits s" and le: "s \<le> x"
  define k where "k = round_half_even (s * 10 ^ 5)"
  from g have sk: "s * 10 ^ 5 = of_int k" unfolding k_def by (rule five_digits_scaled)
  from le have "s * 10 ^ 5 \<le> x * 10 ^ 5" by simp
  with sk have "of_int k \<le> x * 10 ^ 5" by simp
  then have "k \<le> round_half_even (x * 10 ^ 5)" by (rule round_half_even_lower)
  then have "(of_int k :: real) \<le> of_int (round_half_even (x * 10 ^ 5))" by simp
  with sk have "s * 10 ^ 5 \<le> of_int (round_half_even (x * 10 ^ 5))" by simp
  then show ?thesis by (simp add: py_round_def field_simps)
qed

lemma py_round_upper: "five_digits s \<Longrightarrow> x \<le> s \<Longrightarrow> py_round x 5 \<le> s"
proof -
  assume g: "five_digits s" and le: "x \<le> s"
  define k where "k = round_half_even (s * 10 ^ 5)"
  from g have sk: "s * 10 ^ 5 = of_int k" unfolding k_def by (rule five_digits_scaled)
  from le have "x * 10 ^ 5 \<le> s * 10 ^ 5" by simp
  with sk have "x * 10 ^ 5 \<le> of_int k" by simp
  then have "round_half_even (x * 10 ^ 5) \<le> k" by (rule round_half_even_upper)
  then have "(of_int (round_half_even (x * 10 ^ 5)) :: real) \<le> of_int k" by simp
  with sk have "of_int (round_half_even (x * 10 ^ 5)) \<le> s * 10 ^ 5" by simp
  then show ?thesis by (simp add: py_round_def field_simps)
qed

text \<open>
  What the update test guarantees about the stop that is then stored: for a stop with five
  fractional digits, an accepted candidate is never less protective than the current stop
  (it may be equal to it, see below), and a candidate that is strictly more protective is
  always accepted.
\<close>

lemma should_update_long_not_lower:
  "five_digits s \<Longrightarrow> 0 < sz \<Longrightarrow> should_update_stop_loss pct p s e sz \<Longrightarrow>
     s \<le> calculate_stop_loss pct p e sz"
  by (simp add: should_update_stop_loss_def calculate_stop_loss_def Let_def py_round_lower)

lemma should_update_short_not_higher:
  "five_digits s \<Longrightarrow> \<not> 0 < sz \<Longrightarrow> should_update_stop_loss pct p s e sz \<Longrightarrow>
     calculate_stop_loss pct p e sz \<le> s"
  by (simp add: should_update_stop_loss_def calculate_stop_loss_def Let_def py_round_upper)

lemma strictly_higher_is_accepted:
  "five_digits s \<Longrightarrow> 0 < sz \<Longrightarrow> s < calculate_stop_loss pct p e sz \<Longrightarrow>
     should_update_stop_loss pct p s e sz"
proof (rule ccontr)
  assume g: "five_digits s" and "0 < sz" and lt: "s < calculate_stop_loss pct p e sz"
    and "\<not> should_update_stop_loss pct p s e sz"
  then have "p - e * (pct / 100) \<le> s"
    by (simp add: should_update_stop_loss_def Let_def)
  with g have "py_round (p - e * (pct / 100)) 5 \<le> s" by (rule py_round_upper)
  with lt \<open>0 < sz\<close> show False by (simp add: calculate_stop_loss_def Let_def)
qed

lemma strictly_lower_is_accepted:
  "five_digits s \<Longrightarrow> \<not> 0 < sz \<Longrightarrow> calculate_stop_loss pct p e sz < s \<Longrightarrow>
     should_update_stop_loss pct p s e sz"
proof (rule ccontr)
  assume g: "five_digits s" and "\<not> 0 < sz" and lt: "calculate_stop_loss pct p e sz < s"
    and "\<not> should_update_stop_loss pct p s e sz"
  then have "s \<le> p + e * (pct / 100)"
    by (simp add: should_update_stop_loss_def Let_def)
  with g have "s \<le> py_round (p + e * (pct / 100)) 5" by (rule py_round_lower)
  with lt \<open>\<not> 0 < sz\<close> show False by (simp add: calculate_stop_loss_def Let_def)
qed

text \<open>
  C2. The update test is claimed to hold exactly when the stop computed by
  \<open>calculate_stop_loss\<close> is strictly more protective than the current stop, and to be false
  when the two are equal. The test compares the candidate before rounding while the stored
  stop is the rounded one: for a long position entered at 100 with a 2 percent stop and a
  current stop of 107.8, the price 109.800001 gives the unrounded candidate 107.800001,
  which passes the test, and the computed stop 107.8, which equals the current stop.
\<close>

theorem should_update_accepts_equal_stop:
  "should_update_stop_loss 2 109.800001 107.8 100 1 \<and>
   calculate_stop_loss 2 109.800001 100 1 = 107.8"
  by (simp add: should_update_stop_loss_def calculate_stop_loss_def py_round_def
      round_half_even_def Let_def)

section \<open>Reconciliation loop: one symbol at a time\<close>

lemma check_stop_loss_frame:
  "s \<noteq> symbol \<Longrightarrow> fst (check_stop_loss ex pct symbol pid sz price sp stored) s = stored s"
  by (simp add: check_stop_loss_def)

lemma check_stop_loss_orders:
  "entry \<in> set (snd (check_stop_loss ex pct symbol pid sz price sp stored)) \<Longrightarrow> fst entry = symbol"
  by (auto simp: check_stop_loss_def split: if_splits)

lemma check_stop_loss_local:
  "fst (check_stop_loss ex pct symbol pid sz price sp stored) symbol =
     fst (check_stop_loss ex pct symbol pid sz price sp stored') symbol \<and>
   snd (check_stop_loss ex pct symbol pid sz price sp stored) =
     snd (check_stop_loss ex pct symbol pid sz price sp stored')"
  by (simp add: check_stop_loss_def)

lemma process_position_frame:
  "s \<noteq> product_symbol pos \<Longrightarrow> fst (process_position ex pct pos stored) s = stored s"
  by (simp add: process_position_def Let_def check_stop_loss_frame split: option.splits)

lemma process_position_orders:
  "entry \<in> set (snd (process_position ex pct pos stored)) \<Longrightarrow> fst entry = product_symbol pos"
  by (auto simp: process_position_def Let_def split: option.splits if_splits
      dest: check_stop_loss_orders)

lemma process_position_local:
  assumes "stored (product_symbol pos) = stored' (product_symbol pos)"
  shows "fst (process_position ex pct pos stored) (product_symbol pos) =
           fst (process_position ex pct pos stored') (product_symbol pos)"
    and "snd (process_position ex pct pos stored) = snd (process_position ex pct pos stored')"
  using assms check_stop_loss_local [of ex pct "product_symbol pos" _ _ _ _ stored stored']
  by (simp_all add: process_position_def Let_def split: option.splits)

lemma process_positions_frame:
  "s \<notin> set (map product_symbol ps) \<Longrightarrow>
     fst (process_positions ex pct ps stored) s = stored s \<and>
     orders_for s (snd (process_positions ex pct ps stored)) = []"
proof (induction ps arbitrary: stored)
  case Nil
  then show ?case by (simp add: orders_for_def)
next
  case (Cons pos rest)
  obtain st1 os1 where one: "process_position ex pct pos stored = (st1, os1)"
    by (cases "process_position ex pct pos stored")
  obtain st2 os2 where two: "process_positions ex pct rest st1 = (st2, os2)"
    by (cases "process_positions ex pct rest st1")
  from Cons.prems have ne: "s \<noteq> product_symbol pos" and rest: "s \<notin> set (map product_symbol rest)"
    by auto
  from ne one have a: "st1 s = stored s"
    using process_position_frame [of s pos ex pct stored] by simp
  from ne one have b: "orders_for s os1 = []"
    using process_position_orders [of _ ex pct pos stored]
    by (auto simp: orders_for_def filter_empty_conv)
  from Cons.IH [OF rest, of st1] two have c: "st2 s = st1 s" and d: "orders_for s os2 = []"
    by simp_all
  from one two a b c d show ?case by (simp add: orders_for_def)
qed

lemma process_positions_at:
  "distinct (map product_symbol ps) \<Longrightarrow> pos \<in> set ps \<Longrightarrow>
     fst (process_positions ex pct ps stored) (product_symbol pos) =
       fst (process_position ex pct pos stored) (product_symbol pos) \<and>
     orders_for (product_symbol pos) (snd (process_positions ex pct ps stored)) =
       map snd (snd (process_position ex pct pos stored))"
proof (induction ps arbitrary: stored)
  case Nil
  then show ?case by simp
next
  case (Cons hd_pos rest)
  obtain st1 os1 where one: "process_position ex pct hd_pos stored = (st1, os1)"
    by (cases "process_position ex pct hd_pos stored")
  obtain st2 os2 where two: "process_positions ex pct rest st1 = (st2, os2)"
    by (cases "process_positions ex pct rest st1")
  show ?case
  proof (cases "pos = hd_pos")
    case True
    with Cons.prems have "product_symbol pos \<notin> set (map product_symbol rest)" by simp
    from process_positions_frame [OF this, of ex pct st1] two
    have a: "st2 (product_symbol pos) = st1 (product_symbol pos)"
      and b: "orders_for (product_symbol pos) os2 = []" by simp_all
    have "filter (\<lambda>entry. fst entry = product_symbol pos) os1 = os1"
      using process_position_orders [of _ ex pct hd_pos stored] one True
      by (auto simp: filter_id_conv)
    then have c: "orders_for (product_symbol pos) os1 = map snd os1"
      by (simp add: orders_for_def)
    from one two a b c True show ?thesis by (simp add: orders_for_def)
  next
    case False
    with Cons.prems have mem: "pos \<in> set rest" and dist: "distinct (map product_symbol rest)"
      and out: "product_symbol hd_pos \<notin> product_symbol ` set rest" by auto
    from mem have "product_symbol pos \<in> product_symbol ` set rest" by (rule imageI)
    with out have ne: "product_symbol pos \<noteq> product_symbol hd_pos" by auto
    from ne one have a: "st1 (product_symbol pos) = stored (product_symbol pos)"
      using process_position_frame [of "product_symbol pos" hd_pos ex pct stored] by simp
    from ne one have b: "orders_for (product_symbol pos) os1 = []"
      using process_position_orders [of _ ex pct hd_pos stored]
      by (auto simp: orders_for_def filter_empty_conv)
    from Cons.IH [OF dist mem, of st1] two
    have c: "st2 (product_symbol pos) = fst (process_position ex pct pos st1) (product_symbol pos)"
      and d: "orders_for (product_symbol pos) os2 = map snd (snd (process_position ex pct pos st1))"
      by simp_all
    from process_position_local [of st1 pos stored ex pct, OF a] c d
    have "st2 (product_symbol pos) = fst (process_position ex pct pos stored) (product_symbol pos)"
      and "orders_for (product_symbol pos) os2 = map snd (snd (process_position ex pct pos stored))"
      by simp_all
    with one two b show ?thesis by (simp add: orders_for_def)
  qed
qed

lemma reconcile_at:
  assumes "distinct (map product_symbol ps)" and "pos \<in> set ps"
  shows "fst (reconcile ex pct ps stored) (product_symbol pos) =
           fst (process_position ex pct pos stored) (product_symbol pos)"
    and "orders_for (product_symbol pos) (snd (reconcile ex pct ps stored)) =
           map snd (snd (process_position ex pct pos stored))"
  using process_positions_at [OF assms, of ex pct stored] assms(2)
  by (auto simp: reconcile_def remove_closed_def split: prod.splits)

lemma reconcile_absent:
  assumes "s \<notin> set (map product_symbol ps)"
  shows "fst (reconcile ex pct ps stored) s = None"
    and "orders_for s (snd (reconcile ex pct ps stored)) = []"
  using process_positions_frame [OF assms, of ex pct stored] assms
  by (auto simp: reconcile_def remove_closed_def split: prod.splits)

section \<open>Reconciliation loop: a failed close\<close>

text \<open>
  C3, as stated, claims that every field of the entry keeps its value from the start of the
  run. A long position with stop 98 and stored price 100 whose close order fails at the
  price 97 is stored with the price 97.
\<close>

theorem failed_close_changes_current_price:
  "[''BTCUSD'' \<mapsto> btc_long, ''ETHUSD'' \<mapsto> eth_short] ''BTCUSD'' = Some btc_long \<and>
   get_current_price (quotes 97 49 False) ''BTCUSD'' \<le> stop_loss btc_long \<and>
   \<not> place_order (quotes 97 49 False) (close_order 27 1 sell) \<and>
   orders_for ''BTCUSD''
     (snd (reconcile (quotes 97 49 False) 2 [btc_position 1, eth_position (- 2)]
        [''BTCUSD'' \<mapsto> btc_long, ''ETHUSD'' \<mapsto> eth_short])) = [close_order 27 1 sell] \<and>
   fst (reconcile (quotes 97 49 False) 2 [btc_position 1, eth_position (- 2)]
        [''BTCUSD'' \<mapsto> btc_long, ''ETHUSD'' \<mapsto> eth_short]) ''BTCUSD''
     = Some (btc_long\<lparr>current_price := 97\<rparr>) \<and>
   current_price (btc_long\<lparr>current_price := 97\<rparr>) \<noteq> current_price btc_long"
  by (simp add: example_defs loop_defs)

lemma process_position_failed_close:
  assumes "stored (product_symbol pos) = Some e"
    and "product_mapping ex (product_symbol pos) = Some pid" and "pid \<noteq> 0"
    and "get_current_price ex (product_symbol pos) \<noteq> 0"
    and "if position_size pos > 0 then get_current_price ex (product_symbol pos) \<le> stop_loss e
         else get_current_price ex (product_symbol pos) \<ge> stop_loss e"
    and "\<not> place_order ex (close_order pid (position_size pos)
              (if position_size pos > 0 then sell else buy))"
  shows "process_position ex pct pos stored =
           (stored(product_symbol pos \<mapsto> e\<lparr>current_price := get_current_price ex (product_symbol pos)\<rparr>),
            [(product_symbol pos, close_order pid (position_size pos)
                (if position_size pos > 0 then sell else buy))])"
  using assms by (simp add: process_position_def check_stop_loss_def Let_def split: if_splits)

text \<open>
  C3, as amended. When the stop of a stored symbol is breached and the close order does not
  succeed, the run leaves the entry in the store with its entry price, stop, size, update
  count and time of last update unchanged; its current price is the price fetched in this
  run, which the loop writes before it tests the stop. The close order is the only order
  placed for the symbol. Live positions carry one element per product symbol.
\<close>

theorem failed_close_keeps_entry:
  assumes "distinct (map product_symbol live)" and "pos \<in> set live"
    and "stored (product_symbol pos) = Some e"
    and "product_mapping ex (product_symbol pos) = Some pid" and "pid \<noteq> 0"
    and "get_current_price ex (product_symbol pos) \<noteq> 0"
    and "if position_size pos > 0 then get_current_price ex (product_symbol pos) \<le> stop_loss e
         else get_current_price ex (product_symbol pos) \<ge> stop_loss e"
    and "\<not> place_order ex (close_order pid (position_size pos)
              (if position_size pos > 0 then sell else buy))"
  shows "fst (reconcile ex pct live stored) (product_symbol pos) =
           Some (e\<lparr>current_price := get_current_price ex (product_symbol pos)\<rparr>) \<and>
         orders_for (product_symbol pos) (snd (reconcile ex pct live stored)) =
           [close_order pid (position_size pos) (if position_size pos > 0 then sell else buy)]"
  using reconcile_at [OF assms(1,2), of ex pct stored]
    process_position_failed_close [of stored pos e ex pid pct] assms(3-8)
  by simp

text \<open>C3, as amended, at the run above.\<close>

theorem failed_close_keeps_entry_witness:
  "distinct (map product_symbol [btc_position 1, eth_position (- 2)]) \<and>
   btc_position 1 \<in> set [btc_position 1, eth_position (- 2)] \<and>
   [''BTCUSD'' \<mapsto> btc_long, ''ETHUSD'' \<mapsto> eth_short] (product_symbol (btc_position 1))
     = Some btc_long \<and>
   product_mapping (quotes 97 49 False) (product_symbol (btc_position 1)) = Some 27 \<and>
   get_current_price (quotes 97 49 False) (product_symbol (btc_position 1)) \<noteq> 0 \<and>
   get_current_price (quotes 97 49 False) (product_symbol (btc_position 1)) \<le> stop_loss btc_long \<and>
   \<not> place_order (quotes 97 49 False) (close_order 27 1 sell) \<and>
   fst (reconcile (quotes 97 49 False) 2 [btc_position 1, eth_position (- 2)]
        [''BTCUSD'' \<mapsto> btc_long, ''ETHUSD'' \<mapsto> eth_short]) ''BTCUSD''
     = Some (btc_long\<lparr>current_price := 97\<rparr>) \<and>
   entry_price (btc_long\<lparr>current_price := 97\<rparr>) = entry_price btc_long \<and>
   stop_loss (btc_long\<lparr>current_price := 97\<rparr>) = stop_loss btc_long"
  using failed_close_keeps_entry [of "[btc_position 1, eth_position (- 2)]" "btc_position 1"
      "[''BTCUSD'' \<mapsto> btc_long, ''ETHUSD'' \<mapsto> eth_short]" btc_long "quotes 97 49 False" 27 2]
  by (simp add: example_defs close_order_def)

section \<open>Reconciliation loop: the ratchet\<close>

text \<open>
  C4, as stated, speaks of every stored entry and every run. Two runs lower the stop of an
  entry stored as long. In the first the live position is reported with size -1 (the loop
  takes the direction from the live position, not from the entry): at the price 95 the stop
  98 becomes 97. In the second the stored stop 107.800004 has more than five digits: at the
  price 109.8000045 the candidate 107.8000045 passes the test and is stored as 107.8.
\<close>

theorem stop_loss_lowered:
  "size_qty btc_long > 0 \<and>
   fst (reconcile (quotes 95 49 True) 2 [btc_position (- 1)] [''BTCUSD'' \<mapsto> btc_long]) ''BTCUSD''
     = Some (btc_long\<lparr>current_price := 95, stop_loss := 97, stop_loss_updates := 1,
                      last_update := ''2025-03-18 05:28:18''\<rparr>) \<and>
   \<not> stop_loss btc_long \<le> 97 \<and>
   fst (reconcile (quotes 109.8000045 49 True) 2 [btc_position 1]
        [''BTCUSD'' \<mapsto> btc_long\<lparr>stop_loss := 107.800004\<rparr>]) ''BTCUSD''
     = Some (btc_long\<lparr>current_price := 109.8000045, stop_loss := 107.8, stop_loss_updates := 1,
                      last_update := ''2025-03-18 05:28:18''\<rparr>) \<and>
   \<not> stop_loss (btc_long\<lparr>stop_loss := 107.800004\<rparr>) \<le> 107.8"
  by (simp add: example_defs loop_defs)

lemma check_stop_loss_ratchet:
  assumes "five_digits (stop_loss sp)"
    and "fst (check_stop_loss ex pct symbol pid sz price sp stored) symbol = Some e'"
  shows "if sz > 0 then stop_loss sp \<le> stop_loss e' else stop_loss e' \<le> stop_loss sp"
proof (cases "sz > 0")
  case True
  with assms show ?thesis
    using should_update_long_not_lower [of "stop_loss sp" sz pct price "entry_price sp"]
    by (auto simp: check_stop_loss_def trailed_def split: if_splits)
next
  case False
  with assms show ?thesis
    using should_update_short_not_higher [of "stop_loss sp" sz pct price "entry_price sp"]
    by (auto simp: check_stop_loss_def trailed_def split: if_splits)
qed

lemma process_position_ratchet:
  assumes "stored (product_symbol pos) = Some e" and "five_digits (stop_loss e)"
    and "fst (process_position ex pct pos stored) (product_symbol pos) = Some e'"
  shows "if position_size pos > 0 then stop_loss e \<le> stop_loss e'
         else stop_loss e' \<le> stop_loss e"
proof (cases "\<exists>pid. product_mapping ex (product_symbol pos) = Some pid \<and> pid \<noteq> 0 \<and>
    get_current_price ex (product_symbol pos) \<noteq> 0")
  case True
  then obtain pid where pid: "product_mapping ex (product_symbol pos) = Some pid" "pid \<noteq> 0"
    and price: "get_current_price ex (product_symbol pos) \<noteq> 0" by blast
  let ?sp = "e\<lparr>current_price := get_current_price ex (product_symbol pos)\<rparr>"
  from assms(1,3) pid price
  have "fst (check_stop_loss ex pct (product_symbol pos) pid (position_size pos)
          (get_current_price ex (product_symbol pos)) ?sp stored) (product_symbol pos) = Some e'"
    by (simp add: process_position_def Let_def)
  moreover from assms(2) have "five_digits (stop_loss ?sp)" by simp
  ultimately show ?thesis
    using check_stop_loss_ratchet [of ?sp ex pct "product_symbol pos" pid "position_size pos"
        "get_current_price ex (product_symbol pos)" stored e']
    by (simp split: if_splits)
next
  case False
  with assms(1,3) have "e' = e"
    by (auto simp: process_position_def Let_def split: option.splits if_splits)
  then show ?thesis by simp
qed

text \<open>
  C4, as amended. For a stored entry whose stop has five fractional digits and whose live
  position has the direction the entry records, a run moves the stop only in the
  risk-reducing direction as long as the entry remains stored: up or not at all for a long
  entry, down or not at all otherwise. Live positions carry one element per product symbol;
  an entry without a live position is deleted.
\<close>

theorem stop_loss_ratchet:
  assumes "distinct (map product_symbol live)" and "pos \<in> set live"
    and "stored (product_symbol pos) = Some e"
    and "five_digits (stop_loss e)"
    and "(position_size pos > 0) = (size_qty e > 0)"
    and "fst (reconcile ex pct live stored) (product_symbol pos) = Some e'"
  shows "if size_qty e > 0 then stop_loss e \<le> stop_loss e' else stop_loss e' \<le> stop_loss e"
proof -
  from reconcile_at(1) [OF assms(1,2), of ex pct stored] assms(6)
  have "fst (process_position ex pct pos stored) (product_symbol pos) = Some e'" by simp
  from process_position_ratchet [of stored pos e ex pct e', OF assms(3,4) this] assms(5)
  show ?thesis by simp
qed

text \<open>C4, as amended, at a long position whose price rises from 100 to 110.\<close>

theorem stop_loss_ratchet_witness:
  "distinct (map product_symbol [btc_position 1, eth_position (- 2)]) \<and>
   btc_position 1 \<in> set [btc_position 1, eth_position (- 2)] \<and>
   [''BTCUSD'' \<mapsto> btc_long, ''ETHUSD'' \<mapsto> eth_short] (product_symbol (btc_position 1))
     = Some btc_long \<and>
   five_digits (stop_loss btc_long) \<and>
   (position_size (btc_position 1) > 0) = (size_qty btc_long > 0) \<and>
   fst (reconcile (quotes 110 49 True) 2 [btc_position 1, eth_position (- 2)]
        [''BTCUSD'' \<mapsto> btc_long, ''ETHUSD'' \<mapsto> eth_short]) (product_symbol (btc_position 1))
     = Some (btc_long\<lparr>current_price := 110, stop_loss := 108, stop_loss_updates := 1,
                      last_update := ''2025-03-18 05:28:18''\<rparr>) \<and>
   size_qty btc_long > 0 \<and> stop_loss btc_long \<le> 108"
  using stop_loss_ratchet [of "[btc_position 1, eth_position (- 2)]" "btc_position 1"
      "[''BTCUSD'' \<mapsto> btc_long, ''ETHUSD'' \<mapsto> eth_short]" btc_long "quotes 110 49 True" 2
      "btc_long\<lparr>current_price := 110, stop_loss := 108, stop_loss_updates := 1,
                      last_update := ''2025-03-18 05:28:18''\<rparr>"]
  by (simp add: example_defs loop_defs)

lemma check_stop_loss_rounded:
  assumes "\<And>s e. stored s = Some e \<Longrightarrow> five_digits (stop_loss e)"
    and "five_digits (stop_loss sp)"
    and "fst (check_stop_loss ex pct symbol pid sz price sp stored) s' = Some e'"
  shows "five_digits (stop_loss e')"
  using assms
  by (auto simp: check_stop_loss_def trailed_def calculate_stop_loss_def Let_def
      five_digits_py_round split: if_splits)

lemma process_position_rounded:
  assumes inv: "\<And>s e. stored s = Some e \<Longrightarrow> five_digits (stop_loss e)"
    and res: "fst (process_position ex pct pos stored) s' = Some e'"
  shows "five_digits (stop_loss e')"
proof (cases "\<exists>pid. product_mapping ex (product_symbol pos) = Some pid \<and> pid \<noteq> 0 \<and>
    get_current_price ex (product_symbol pos) \<noteq> 0")
  case False
  with res have "stored s' = Some e'"
    by (auto simp: process_position_def Let_def split: option.splits if_splits)
  then show ?thesis by (rule inv)
next
  case True
  then obtain pid where pid: "product_mapping ex (product_symbol pos) = Some pid" "pid \<noteq> 0"
    and price: "get_current_price ex (product_symbol pos) \<noteq> 0" by blast
  show ?thesis
  proof (cases "stored (product_symbol pos)")
    case None
    with res pid price
    have "(stored(product_symbol pos \<mapsto>
             new_position_data ex pct pos (get_current_price ex (product_symbol pos)))) s' = Some e'"
      by (simp add: process_position_def Let_def)
    then show ?thesis
      using inv [of s' e']
      by (auto simp: new_position_data_def calculate_stop_loss_def Let_def five_digits_py_round
          split: if_splits)
  next
    case (Some old)
    let ?sp = "old\<lparr>current_price := get_current_price ex (product_symbol pos)\<rparr>"
    from Some res pid price
    have "fst (check_stop_loss ex pct (product_symbol pos) pid (position_size pos)
            (get_current_price ex (product_symbol pos)) ?sp stored) s' = Some e'"
      by (simp add: process_position_def Let_def)
    moreover from inv [OF Some] have "five_digits (stop_loss ?sp)" by simp
    ultimately show ?thesis
      using check_stop_loss_rounded [of stored ?sp ex pct "product_symbol pos" pid
          "position_size pos" "get_current_price ex (product_symbol pos)" s' e'] inv
      by blast
  qed
qed

lemma process_positions_rounded:
  "(\<And>s e. stored s = Some e \<Longrightarrow> five_digits (stop_loss e)) \<Longrightarrow>
     fst (process_positions ex pct ps stored) s' = Some e' \<Longrightarrow> five_digits (stop_loss e')"
proof (induction ps arbitrary: stored)
  case Nil
  then show ?case by simp
next
  case (Cons pos rest)
  obtain st1 os1 where one: "process_position ex pct pos stored = (st1, os1)"
    by (cases "process_position ex pct pos stored")
  obtain st2 os2 where two: "process_positions ex pct rest st1 = (st2, os2)"
    by (cases "process_positions ex pct rest st1")
  have inv1: "\<And>s e. st1 s = Some e \<Longrightarrow> five_digits (stop_loss e)"
    using process_position_rounded [of stored ex pct pos] Cons.prems(1) one by simp
  from Cons.prems(2) one two have "fst (process_positions ex pct rest st1) s' = Some e'" by simp
  with inv1 show ?case by (rule Cons.IH)
qed

text \<open>Every stop the loop computes has five fractional digits, and a run keeps it so.\<close>

lemma reconcile_rounded:
  assumes "\<And>s e. stored s = Some e \<Longrightarrow> five_digits (stop_loss e)"
    and "fst (reconcile ex pct live stored) s' = Some e'"
  shows "five_digits (stop_loss e')"
proof -
  from assms(2) have "fst (process_positions ex pct live stored) s' = Some e'"
    by (auto simp: reconcile_def remove_closed_def split: prod.splits if_splits)
  with assms(1) show ?thesis by (rule process_positions_rounded)
qed

section \<open>Reconciliation loop: new, skipped and closed symbols\<close>


lemma process_position_new:
  assumes "stored (product_symbol pos) = None"
    and "product_mapping ex (product_symbol pos) = Some pid" and "pid \<noteq> 0"
    and "get_current_price ex (product_symbol pos) \<noteq> 0"
  shows "process_position ex pct pos stored =
           (stored(product_symbol pos \<mapsto>
              new_position_data ex pct pos (get_current_price ex (product_symbol pos))), [])"
  using assms by (simp add: process_position_def Let_def)



lemma process_position_skip:
  "get_current_price ex (product_symbol pos) = 0 \<Longrightarrow> process_position ex pct pos stored = (stored, [])"
  by (simp add: process_position_def Let_def split: option.splits)

lemma process_positions_skip:
  "get_current_price ex s = 0 \<Longrightarrow>
     fst (process_positions ex pct ps stored) s = stored s \<and>
     orders_for s (snd (process_positions ex pct ps stored)) = []"
proof (induction ps arbitrary: stored)
  case Nil
  then show ?case by (simp add: orders_for_def)
next
  case (Cons pos rest)
  obtain st1 os1 where one: "process_position ex pct pos stored = (st1, os1)"
    by (cases "process_position ex pct pos stored")
  obtain st2 os2 where two: "process_positions ex pct rest st1 = (st2, os2)"
    by (cases "process_positions ex pct rest st1")
  have a: "st1 s = stored s \<and> orders_for s os1 = []"
  proof (cases "s = product_symbol pos")
    case True
    with Cons.prems one show ?thesis
      by (simp add: process_position_skip orders_for_def)
  next
    case False
    with one show ?thesis
      using process_position_frame [of s pos ex pct stored]
        process_position_orders [of _ ex pct pos stored]
      by (auto simp: orders_for_def filter_empty_conv)
  qed
  from Cons.IH [OF Cons.prems, of st1] two have "st2 s = st1 s" and "orders_for s os2 = []"
    by simp_all
  with one two a show ?case by (simp add: orders_for_def)
qed

text \<open>
  C7. A live symbol whose price lookup returns 0 is skipped: after the run its stored
  entry is what it was before (an entry stays as it is, a missing entry stays missing), and
  no order was placed for it.
\<close>

theorem failed_price_lookup_skips_symbol:
  assumes "pos \<in> set live" and "get_current_price ex (product_symbol pos) = 0"
  shows "fst (reconcile ex pct live stored) (product_symbol pos) = stored (product_symbol pos) \<and>
         orders_for (product_symbol pos) (snd (reconcile ex pct live stored)) = []"
  using process_positions_skip [OF assms(2), of pct live stored] assms(1)
  by (auto simp: reconcile_def remove_closed_def split: prod.splits)

text \<open>C7 at a run where the price of BTCUSD cannot be fetched.\<close>

theorem failed_price_lookup_skips_symbol_witness:
  "btc_position 1 \<in> set [btc_position 1, eth_position (- 2)] \<and>
   get_current_price (quotes 0 49 True) (product_symbol (btc_position 1)) = 0 \<and>
   fst (reconcile (quotes 0 49 True) 2 [btc_position 1, eth_position (- 2)]
        [''BTCUSD'' \<mapsto> btc_long, ''ETHUSD'' \<mapsto> eth_short]) ''BTCUSD'' = Some btc_long \<and>
   orders_for ''BTCUSD''
     (snd (reconcile (quotes 0 49 True) 2 [btc_position 1, eth_position (- 2)]
        [''BTCUSD'' \<mapsto> btc_long, ''ETHUSD'' \<mapsto> eth_short])) = []"
  using failed_price_lookup_skips_symbol [of "btc_position 1" "[btc_position 1, eth_position (- 2)]"
      "quotes 0 49 True" 2 "[''BTCUSD'' \<mapsto> btc_long, ''ETHUSD'' \<mapsto> eth_short]"]
  by (simp add: example_defs)

text \<open>
  C8. A symbol that is stored but is not among the live positions is deleted by the run,
  and no order is placed for it.
\<close>

theorem externally_closed_removed:
  assumes "stored s = Some e" and "s \<notin> set (map product_symbol live)"
  shows "fst (reconcile ex pct live stored) s = None \<and>
         orders_for s (snd (reconcile ex pct live stored)) = []"
  using reconcile_absent [OF assms(2), of ex pct stored] by simp

text \<open>C8 at a run where only the ETHUSD position is still open.\<close>

theorem externally_closed_removed_witness:
  "[''BTCUSD'' \<mapsto> btc_long, ''ETHUSD'' \<mapsto> eth_short] ''BTCUSD'' = Some btc_long \<and>
   ''BTCUSD'' \<notin> set (map product_symbol [eth_position (- 2)]) \<and>
   fst (reconcile (quotes 90 49 True) 2 [eth_position (- 2)]
        [''BTCUSD'' \<mapsto> btc_long, ''ETHUSD'' \<mapsto> eth_short]) ''BTCUSD'' = None \<and>
   orders_for ''BTCUSD''
     (snd (reconcile (quotes 90 49 True) 2 [eth_position (- 2)]
        [''BTCUSD'' \<mapsto> btc_long, ''ETHUSD'' \<mapsto> eth_short])) = []"
  using externally_closed_removed [of "[''BTCUSD'' \<mapsto> btc_long, ''ETHUSD'' \<mapsto> eth_short]"
      "''BTCUSD''" btc_long "[eth_position (- 2)]" "quotes 90 49 True" 2]
  by (simp add: example_defs)

text \<open>
  C10. In the run that inserts a live symbol, no order is placed for that symbol and the
  inserted entry is left as computed from the entry price, whatever the current price is,
  also when it already breaches the initial stop. Live positions carry one element per
  product symbol.
\<close>

theorem inserted_symbol_gets_no_order:
  assumes "distinct (map product_symbol live)" and "pos \<in> set live"
    and "stored (product_symbol pos) = None"
    and "product_mapping ex (product_symbol pos) = Some pid" and "pid \<noteq> 0"
    and "get_current_price ex (product_symbol pos) \<noteq> 0"
  shows "orders_for (product_symbol pos) (snd (reconcile ex pct live stored)) = [] \<and>
         fst (reconcile ex pct live stored) (product_symbol pos) =
           Some (new_position_data ex pct pos (get_current_price ex (product_symbol pos)))"
  using reconcile_at [OF assms(1,2), of ex pct stored]
    process_position_new [of stored pos ex pid pct] assms(3-6)
  by simp

text \<open>
  C10 at a long position entered at 100 and first seen at the price 90, below its initial
  stop of 98.
\<close>

theorem inserted_symbol_gets_no_order_witness:
  "distinct (map product_symbol [btc_position 1, eth_position (- 2)]) \<and>
   btc_position 1 \<in> set [btc_position 1, eth_position (- 2)] \<and>
   [''ETHUSD'' \<mapsto> eth_short] (product_symbol (btc_position 1)) = None \<and>
   product_mapping (quotes 90 49 True) (product_symbol (btc_position 1)) = Some 27 \<and>
   get_current_price (quotes 90 49 True) (product_symbol (btc_position 1)) \<noteq> 0 \<and>
   get_current_price (quotes 90 49 True) ''BTCUSD''
     \<le> stop_loss (new_position_data (quotes 90 49 True) 2 (btc_position 1) 90) \<and>
   orders_for ''BTCUSD''
     (snd (reconcile (quotes 90 49 True) 2 [btc_position 1, eth_position (- 2)]
        [''ETHUSD'' \<mapsto> eth_short])) = [] \<and>
   fst (reconcile (quotes 90 49 True) 2 [btc_position 1, eth_position (- 2)]
        [''ETHUSD'' \<mapsto> eth_short]) ''BTCUSD''
     = Some (new_position_data (quotes 90 49 True) 2 (btc_position 1) 90)"
  using inserted_symbol_gets_no_order [of "[btc_position 1, eth_position (- 2)]" "btc_position 1"
      "[''ETHUSD'' \<mapsto> eth_short]" "quotes 90 49 True" 27 2]
  by (simp add: example_defs new_position_data_def calculate_stop_loss_def py_round_def
      round_half_even_def)

section \<open>Position store: loading\<close>



section \<open>Position store: the retry loop\<close>

lemma save_loop_3: "save_loop faults data 3 w = (None, w, [])"
  by (subst save_loop.simps) (simp add: MAX_RETRIES_def)

lemma save_loop_2:
  "save_loop faults data 2 w =
     (case try_save (faults 3) data w of
        (None, w1, lines) \<Rightarrow> (None, w1, save_attempt 3 # lines)
      | (Some st, w1, lines) \<Rightarrow>
          (let (w2, lines2) = restore_from_bak (faults 3) w1
           in (Some save_failed, w2,
               save_attempt 3 # lines @ [attempt_failed 3 st] @ lines2 @ [all_attempts_failed])))"
  by (subst save_loop.simps) (simp add: MAX_RETRIES_def eval_nat_numeral split: prod.splits option.splits)

lemma save_loop_1:
  "save_loop faults data 1 w =
     (case try_save (faults 2) data w of
        (None, w1, lines) \<Rightarrow> (None, w1, save_attempt 2 # lines)
      | (Some st, w1, lines) \<Rightarrow>
          (let (r, w3, lines3) = save_loop faults data 2 (w1\<lparr>clock := clock w1 + 1\<rparr>)
           in (r, w3, save_attempt 2 # lines @ [attempt_failed 2 st] @ [retrying] @ lines3)))"
  by (subst save_loop.simps) (simp add: MAX_RETRIES_def eval_nat_numeral split: prod.splits option.splits)

lemma save_loop_0:
  "save_loop faults data 0 w =
     (case try_save (faults 1) data w of
        (None, w1, lines) \<Rightarrow> (None, w1, save_attempt 1 # lines)
      | (Some st, w1, lines) \<Rightarrow>
          (let (r, w3, lines3) = save_loop faults data 1 (w1\<lparr>clock := clock w1 + 1\<rparr>)
           in (r, w3, save_attempt 1 # lines @ [attempt_failed 1 st] @ [retrying] @ lines3)))"
  by (subst save_loop.simps) (simp add: MAX_RETRIES_def eval_nat_numeral split: prod.splits option.splits)

lemma attempts_simps:
  "attempts [] = 0" "attempts (line # lines) = (if is_attempt line then 1 else 0) + attempts lines"
  "attempts (xs @ ys) = attempts xs + attempts ys"
  by (simp_all add: attempts_def)

lemma pauses_simps:
  "pauses [] = 0" "pauses (line # lines) = (if line = retrying then 1 else 0) + pauses lines"
  "pauses (xs @ ys) = pauses xs + pauses ys"
  by (simp_all add: pauses_def)

lemma tidy_up_quiet:
  "tidy_up fails w = (w1, lines) \<Longrightarrow> attempts lines = 0 \<and> pauses lines = 0 \<and> clock w1 = clock w"
  by (auto simp: tidy_up_def attempts_simps pauses_simps split: if_splits)

lemma backup_existing_clock:
  "backup_existing fails w = (r, w1) \<Longrightarrow> clock w1 = clock w"
  by (auto simp: backup_existing_def split: option.splits content.splits if_splits)

lemma try_save_quiet:
  assumes "try_save fails data w = (r, w1, lines)"
  shows "attempts lines = 0 \<and> pauses lines = 0 \<and> clock w1 = clock w"
proof -
  obtain rb wb where b: "backup_existing fails w = (rb, wb)"
    by (cases "backup_existing fails w")
  then have cb: "clock wb = clock w" by (rule backup_existing_clock)
  let ?w2 = "wb\<lparr>temp_dir := put_file (clock wb) (json data) (temp_dir wb)\<rparr>"
  let ?w3 = "?w2\<lparr>positions_file := map_of (temp_dir ?w2) (clock ?w2),
                  temp_dir := remove_file (clock ?w2) (temp_dir ?w2)\<rparr>"
  obtain wt lt where t: "tidy_up fails ?w3 = (wt, lt)" by (cases "tidy_up fails ?w3")
  from tidy_up_quiet [OF t] have q: "attempts lt = 0" "pauses lt = 0" "clock wt = clock wb"
    by simp_all
  from assms b t q cb show ?thesis
    by (auto simp: try_save_def Let_def attempts_simps pauses_simps
        split: option.splits if_splits)
qed

lemma restore_from_bak_quiet:
  "restore_from_bak fails w = (w1, lines) \<Longrightarrow>
     attempts lines = 0 \<and> pauses lines = 0 \<and> clock w1 = clock w"
  by (auto simp: restore_from_bak_def attempts_simps pauses_simps split: if_splits)

lemma save_loop_2_policy:
  assumes "save_loop faults data 2 w = (r, w', lines)"
  shows "attempts lines = 1 \<and> pauses lines = 0 \<and> clock w' = clock w \<and>
         (r = None \<or> r = Some save_failed)"
proof -
  obtain r3 w3 l3 where t: "try_save (faults 3) data w = (r3, w3, l3)"
    by (cases "try_save (faults 3) data w")
  obtain wr lr where rs: "restore_from_bak (faults 3) w3 = (wr, lr)"
    by (cases "restore_from_bak (faults 3) w3")
  from try_save_quiet [OF t] restore_from_bak_quiet [OF rs] assms t rs show ?thesis
    by (auto simp: save_loop_2 attempts_simps pauses_simps split: option.splits)
qed

lemma save_loop_1_policy:
  assumes "save_loop faults data 1 w = (r, w', lines)"
  shows "1 \<le> attempts lines \<and> attempts lines \<le> 2 \<and> pauses lines = attempts lines - 1 \<and>
         clock w' = clock w + (attempts lines - 1) \<and>
         (r = None \<or> r = Some save_failed \<and> attempts lines = 2)"
proof -
  obtain r2 w2 l2 where t: "try_save (faults 2) data w = (r2, w2, l2)"
    by (cases "try_save (faults 2) data w")
  obtain rn wn ln where n: "save_loop faults data 2 (w2\<lparr>clock := clock w2 + 1\<rparr>) = (rn, wn, ln)"
    by (cases "save_loop faults data 2 (w2\<lparr>clock := clock w2 + 1\<rparr>)")
  from try_save_quiet [OF t] save_loop_2_policy [OF n] assms t n show ?thesis
    by (auto simp: save_loop_1 attempts_simps pauses_simps simp del: One_nat_def
        split: option.splits)
qed

text \<open>
  The retry policy: between one and three attempts, a pause of one second between two
  attempts and nowhere else, and an exception only after the third attempt has failed.
\<close>

lemma save_retry_policy:
  assumes "save_positions_data faults data w = (r, w', lines)"
  shows "1 \<le> attempts lines \<and> attempts lines \<le> MAX_RETRIES \<and>
         pauses lines = attempts lines - 1 \<and>
         clock w' = clock w + (attempts lines - 1) \<and>
         (r = None \<or> r = Some save_failed \<and> attempts lines = MAX_RETRIES)"
proof -
  obtain r1 w1 l1 where t: "try_save (faults 1) data w = (r1, w1, l1)"
    by (cases "try_save (faults 1) data w")
  obtain rn wn ln where n: "save_loop faults data 1 (w1\<lparr>clock := clock w1 + 1\<rparr>) = (rn, wn, ln)"
    by (cases "save_loop faults data 1 (w1\<lparr>clock := clock w1 + 1\<rparr>)")
  from try_save_quiet [OF t] save_loop_1_policy [OF n] assms t n show ?thesis
    by (auto simp: save_positions_data_def save_loop_0 MAX_RETRIES_def attempts_simps
        pauses_simps simp del: One_nat_def split: option.splits)
qed

text \<open>A save that meets no failure writes the snapshot, and loading returns it.\<close>

lemma save_then_load:
  assumes "positions_file w = None \<or> positions_file w = Some (json old)"
  shows "fst (save_positions_data no_faults data w) = None \<and>
         positions_file (fst (snd (save_positions_data no_faults data w))) = Some (json data) \<and>
         fst (load_positions_data (fst (snd (save_positions_data no_faults data w)))) = Inr data"
  using assms
  by (auto simp: store_defs save_loop_0 no_faults_def Let_def simp del: One_nat_def)

text \<open>
  C1. After three failed attempts the save is claimed to restore the most recent backup when
  one is present, before it raises. On the example disk the backup directory holds an
  earlier snapshot; the three attempts fail, the save raises, and nothing is restored: the
  handler only looks for \<^verbatim>\<open>positions_data.json.bak\<close>, which no save writes, and the log has
  no restoring line. The positions file is left as it was.
\<close>

theorem failed_save_restores_nothing:
  "save_positions_data no_faults new_snapshot (corrupt_disk None) =
     (Some save_failed,
      \<lparr>positions_file = Some garbage, bak_file = None,
       backup_dir = [(1002, garbage), (1001, garbage), (1000, garbage), (900, json old_snapshot)],
       temp_dir = [], clock = 1002\<rparr>,
      [save_attempt 1, attempt_failed 1 write_backup, retrying,
       save_attempt 2, attempt_failed 2 write_backup, retrying,
       save_attempt 3, attempt_failed 3 write_backup, all_attempts_failed])"
  by (simp add: store_defs save_loop_0 save_loop_1 save_loop_2 corrupt_disk_def no_faults_def
      del: One_nat_def)

section \<open>Position store: a positions file that does not parse\<close>

lemma try_save_garbage:
  assumes "positions_file w = Some garbage"
  shows "\<exists>w1. try_save fails data w = (Some (backup_failure fails), w1, []) \<and>
           positions_file w1 = Some garbage \<and> bak_file w1 = bak_file w \<and>
           temp_dir w1 = temp_dir w \<and> clock w1 = clock w"
  using assms by (simp add: try_save_def backup_existing_def backup_failure_def)

lemma restore_from_bak_cases:
  "restore_from_bak fails w =
     (case bak_file w of
        None \<Rightarrow> (w, [])
      | Some b \<Rightarrow> if fails restore_bak then (w, [restoring, restore_failed])
                  else (w\<lparr>positions_file := Some b, bak_file := None\<rparr>, [restoring, restored]))"
  by (simp add: restore_from_bak_def split: option.splits)

text \<open>
  C9, as stated, claims that the unparsable file is never replaced. With a \<^verbatim>\<open>.bak\<close> file
  next to it, the failed save ends with the content of that file in its place.
\<close>

theorem corrupt_file_replaced_by_bak:
  "positions_file (corrupt_disk (Some (json old_snapshot))) = Some garbage \<and>
   fst (save_positions_data no_faults new_snapshot (corrupt_disk (Some (json old_snapshot))))
     = Some save_failed \<and>
   positions_file
     (fst (snd (save_positions_data no_faults new_snapshot (corrupt_disk (Some (json old_snapshot))))))
     = Some (json old_snapshot)"
  by (simp add: store_defs save_loop_0 save_loop_1 save_loop_2 corrupt_disk_def no_faults_def
      del: One_nat_def)

text \<open>
  What a save does when the positions file exists and does not parse, for every choice of
  failures added by the surroundings.
\<close>

lemma save_over_garbage:
  assumes "positions_file w = Some garbage"
  shows "fst (save_positions_data faults data w) = Some save_failed \<and>
         snd (snd (save_positions_data faults data w)) =
           [save_attempt 1, attempt_failed 1 (backup_failure (faults 1)), retrying,
            save_attempt 2, attempt_failed 2 (backup_failure (faults 2)), retrying,
            save_attempt 3, attempt_failed 3 (backup_failure (faults 3))]
           @ (case bak_file w of
                None \<Rightarrow> []
              | Some b \<Rightarrow> if faults 3 restore_bak then [restoring, restore_failed]
                          else [restoring, restored])
           @ [all_attempts_failed] \<and>
         temp_dir (fst (snd (save_positions_data faults data w))) = temp_dir w \<and>
         positions_file (fst (snd (save_positions_data faults data w))) =
           (case bak_file w of
              None \<Rightarrow> Some garbage
            | Some b \<Rightarrow> if faults 3 restore_bak then Some garbage else Some b) \<and>
         fst (load_positions_data w) = Inr empty_snapshot"
proof -
  from try_save_garbage [OF assms, of "faults 1" data]
  obtain w1 where one: "try_save (faults 1) data w = (Some (backup_failure (faults 1)), w1, [])"
    and w1: "positions_file w1 = Some garbage" "bak_file w1 = bak_file w"
      "temp_dir w1 = temp_dir w" by blast
  let ?w1 = "w1\<lparr>clock := clock w1 + 1\<rparr>"
  from w1 have "positions_file ?w1 = Some garbage" by simp
  from try_save_garbage [OF this, of "faults 2" data]
  obtain w2 where two: "try_save (faults 2) data ?w1 = (Some (backup_failure (faults 2)), w2, [])"
    and w2: "positions_file w2 = Some garbage" "bak_file w2 = bak_file ?w1"
      "temp_dir w2 = temp_dir ?w1" by blast
  let ?w2 = "w2\<lparr>clock := clock w2 + 1\<rparr>"
  from w2 have "positions_file ?w2 = Some garbage" by simp
  from try_save_garbage [OF this, of "faults 3" data]
  obtain w3 where three: "try_save (faults 3) data ?w2 = (Some (backup_failure (faults 3)), w3, [])"
    and w3: "positions_file w3 = Some garbage" "bak_file w3 = bak_file ?w2"
      "temp_dir w3 = temp_dir ?w2" by blast
  from w1 w2 w3 have bak: "bak_file w3 = bak_file w" and tmp: "temp_dir w3 = temp_dir w" by simp_all
  have "save_positions_data faults data w =
          (let (w4, lines) = restore_from_bak (faults 3) w3
           in (Some save_failed, w4,
               [save_attempt 1, attempt_failed 1 (backup_failure (faults 1)), retrying,
                save_attempt 2, attempt_failed 2 (backup_failure (faults 2)), retrying,
                save_attempt 3, attempt_failed 3 (backup_failure (faults 3))] @ lines
               @ [all_attempts_failed]))"
    by (simp add: save_positions_data_def save_loop_0 save_loop_1 save_loop_2 one two three
        del: One_nat_def split: prod.splits)
  with w3(1) bak tmp assms show ?thesis
    by (auto simp: restore_from_bak_cases load_positions_data_def load_body_def
        split: option.splits)
qed

text \<open>
  C9, as amended. When the positions file exists and does not parse and there is no
  \<^verbatim>\<open>positions_data.json.bak\<close>, each of the three attempts fails no later than the backup
  (at the backup itself unless the backup directory cannot be made), no temporary file is
  written, the save raises after the third attempt, and the unparsable file is still in
  place. Loading the same file gives the empty snapshot.
\<close>

theorem corrupt_file_blocks_save:
  assumes "positions_file w = Some garbage" and "bak_file w = None"
  shows "fst (save_positions_data faults data w) = Some save_failed \<and>
         snd (snd (save_positions_data faults data w)) =
           [save_attempt 1, attempt_failed 1 (backup_failure (faults 1)), retrying,
            save_attempt 2, attempt_failed 2 (backup_failure (faults 2)), retrying,
            save_attempt 3, attempt_failed 3 (backup_failure (faults 3)),
            all_attempts_failed] \<and>
         temp_dir (fst (snd (save_positions_data faults data w))) = temp_dir w \<and>
         positions_file (fst (snd (save_positions_data faults data w))) = Some garbage \<and>
         fst (load_positions_data w) = Inr empty_snapshot"
  using save_over_garbage [OF assms(1), of faults data] assms(2) by simp

text \<open>C9, as amended, on the example disk without a \<^verbatim>\<open>.bak\<close> file.\<close>

theorem corrupt_file_blocks_save_witness:
  "positions_file (corrupt_disk None) = Some garbage \<and>
   bak_file (corrupt_disk None) = None \<and>
   fst (save_positions_data no_faults new_snapshot (corrupt_disk None)) = Some save_failed \<and>
   snd (snd (save_positions_data no_faults new_snapshot (corrupt_disk None))) =
     [save_attempt 1, attempt_failed 1 write_backup, retrying,
      save_attempt 2, attempt_failed 2 write_backup, retrying,
      save_attempt 3, attempt_failed 3 write_backup, all_attempts_failed] \<and>
   temp_dir (fst (snd (save_positions_data no_faults new_snapshot (corrupt_disk None)))) = [] \<and>
   positions_file (fst (snd (save_positions_data no_faults new_snapshot (corrupt_disk None))))
     = Some garbage \<and>
   fst (load_positions_data (corrupt_disk None)) = Inr empty_snapshot"
  using corrupt_file_blocks_save [of "corrupt_disk None" no_faults new_snapshot]
  by (simp add: corrupt_disk_def no_faults_def backup_failure_def)

section \<open>One run: what reaches the disk\<close>

text \<open>
  With a product mapping, a positions file that is absent or holds a snapshot, and no
  failure while saving, the run leaves the reconciled snapshot in the positions file and
  has placed the orders of the reconciliation.
\<close>

lemma run_persists_reconciliation:
  assumes "product_mapping ex s = Some pid"
    and "positions_file w = None \<or> positions_file w = Some (json old)"
    and "fst (load_positions_data w) = Inr (object (Some d))"
  shows "positions_file (fst (manage_stop_losses ex pct no_faults live w)) =
           Some (json (object (Some (fst (reconcile ex pct live d)))))"
    and "fst (snd (manage_stop_losses ex pct no_faults live w)) = snd (reconcile ex pct live d)"
proof -
  from assms(1) have ne: "product_mapping ex \<noteq> Map.empty" by auto
  obtain lines where l: "load_positions_data w = (Inr (object (Some d)), lines)"
    using assms(3) by (cases "load_positions_data w") simp
  let ?new = "object (Some (fst (reconcile ex pct live d)))"
  have "fst (manage_stop_losses ex pct no_faults live w) =
          fst (snd (save_positions_data no_faults ?new w))"
    using ne l by (simp add: manage_stop_losses_def split: prod.splits)
  with save_then_load [OF assms(2), of ?new]
  show "positions_file (fst (manage_stop_losses ex pct no_faults live w)) = Some (json ?new)"
    by simp
  show "fst (snd (manage_stop_losses ex pct no_faults live w)) = snd (reconcile ex pct live d)"
    using ne l by (simp add: manage_stop_losses_def split: prod.splits)
qed

end
